theory Spec2Isabelle
  imports Main "HOL-Library.Word"
begin

unbundle bit_operations_syntax

section \<open>PowerSimData: the tiered data access layer\<close>

text \<open>
  A shallow embedding of \<^verbatim>\<open>powersimdata/data_access/data_access.py\<close>: the class
  \<^verbatim>\<open>DataAccess\<close> with its Remote-Shell variant \<^verbatim>\<open>SSHDataAccess\<close>. The code works on
  pyfilesystem objects; the model gives each of them a name in an explicit store, so
  that a filesystem shared between \<^verbatim>\<open>self.local_fs\<close> and the \<^verbatim>\<open>MultiFS\<close> (as in
  \<^verbatim>\<open>LocalDataAccess\<close>) is one object, as in the code. Every raise of the source and
  every error of a filesystem call is a value \<open>Inl e\<close>; every method takes the world
  and returns it updated.
\<close>

subsection \<open>Paths\<close>

text \<open>
  A path is the list of its components, as the filesystem library sees it once it has
  validated and normalised the string: \<^verbatim>\<open>"a/b.csv"\<close> is \<open>[''a'', ''b.csv'']\<close> and the
  root \<^verbatim>\<open>""\<close> is \<open>[]\<close>. \<^verbatim>\<open>fs.path.join\<close>, \<^verbatim>\<open>dirname\<close> and \<^verbatim>\<open>basename\<close> act on
  components.
\<close>

type_synonym path = "string list"
type_synonym bytes = string

fun path_str :: "path \<Rightarrow> string" where
  "path_str [] = []"
| "path_str [c] = c"
| "path_str (c # cs) = c @ ''/'' @ path_str cs"

definition join :: "path \<Rightarrow> path \<Rightarrow> path" where
  "join a b = a @ b"

definition dirname :: "path \<Rightarrow> path" where
  "dirname p = butlast p"

definition basename :: "path \<Rightarrow> path" where
  "basename p = (case rev p of [] \<Rightarrow> [] | c # _ \<Rightarrow> [c])"

text \<open>Python's \<^verbatim>\<open>str.split(sep)\<close> for a one-character separator: never empty.\<close>

fun split_on :: "char \<Rightarrow> string \<Rightarrow> string list" where
  "split_on sep [] = [[]]"
| "split_on sep (x # xs) =
     (if x = sep then [] # split_on sep xs
      else (case split_on sep xs of
              [] \<Rightarrow> [[x]]
            | y # ys \<Rightarrow> (x # y) # ys))"

text \<open>\<^verbatim>\<open>f"{rename}.temp"\<close>: the suffix goes on the last component.\<close>

definition add_suffix :: "path \<Rightarrow> string \<Rightarrow> path" where
  "add_suffix p s = (case rev p of [] \<Rightarrow> [s] | c # cs \<Rightarrow> rev cs @ [c @ s])"

text \<open>\<^verbatim>\<open>posixpath.join(a, b)\<close> on the strings of the remote command.\<close>

definition posixpath_join :: "string \<Rightarrow> string \<Rightarrow> string" where
  "posixpath_join a b =
     (if b \<noteq> [] \<and> hd b = CHR ''/'' then b
      else if a = [] \<or> last a = CHR ''/'' then a @ b
      else a @ ''/'' @ b)"

subsection \<open>Filesystems\<close>

text \<open>
  One filesystem object maps a path to a file with its bytes or to a directory. The
  root always exists and is a directory.
\<close>

datatype entry = File bytes | Dir

type_synonym fsys = "path \<rightharpoonup> entry"

datatype error =
    NotFound path "string list"  \<comment> \<open>\<^verbatim>\<open>OSError("{path} not found on any of {remotes}")\<close>\<close>
  | AlreadyExists path string    \<comment> \<open>\<^verbatim>\<open>OSError("{path} already exists on {location}")\<close>\<close>
  | UnknownExtension string      \<comment> \<open>\<^verbatim>\<open>ValueError("Unknown extension! %s")\<close>\<close>
  | ConflictError                \<comment> \<open>\<^verbatim>\<open>IOError("Failed to push file - most likely a conflict was detected.")\<close>\<close>
  | ChecksumsDoNotMatch          \<comment> \<open>\<^verbatim>\<open>ValueError("Checksums do not match")\<close>\<close>
  | NotImplementedError
  | ResourceNotFound path        \<comment> \<open>the filesystem library's errors\<close>
  | FileExpected path
  | DirectoryExpected path
  | ResourceReadOnly path
  | UnsupportedHash string
  | AttributeError               \<comment> \<open>Python's errors for a missing attribute and a missing key\<close>
  | KeyError string

definition lookup :: "fsys \<Rightarrow> path \<Rightarrow> entry option" where
  "lookup f p = (if p = [] then Some Dir else f p)"

definition exists :: "fsys \<Rightarrow> path \<Rightarrow> bool" where
  "exists f p = (lookup f p \<noteq> None)"

definition isdir :: "fsys \<Rightarrow> path \<Rightarrow> bool" where
  "isdir f p = (lookup f p = Some Dir)"

text \<open>The proper prefixes of a path and the path itself, shortest first, the root left out.\<close>

fun dirs_of :: "path \<Rightarrow> path list" where
  "dirs_of [] = []"
| "dirs_of (c # cs) = [c] # map ((#) c) (dirs_of cs)"

text \<open>
  \<^verbatim>\<open>fs.makedirs(path, recreate=True)\<close>: every missing directory on the way is created;
  a file on the way is \<^verbatim>\<open>DirectoryExpected\<close>.
\<close>

fun mkdir_all :: "fsys \<Rightarrow> path list \<Rightarrow> error + fsys" where
  "mkdir_all f [] = Inr f"
| "mkdir_all f (d # ds) =
     (case f d of
        Some (File _) \<Rightarrow> Inl (DirectoryExpected d)
      | _ \<Rightarrow> mkdir_all (f(d \<mapsto> Dir)) ds)"

definition makedirs :: "fsys \<Rightarrow> path \<Rightarrow> error + fsys" where
  "makedirs f p = mkdir_all f (dirs_of p)"

text \<open>
  \<^verbatim>\<open>fs.openbin(path)\<close> for reading, with the bytes read to the end.
\<close>

definition readbytes :: "fsys \<Rightarrow> path \<Rightarrow> error + bytes" where
  "readbytes f p =
     (case lookup f p of
        None \<Rightarrow> Inl (ResourceNotFound p)
      | Some Dir \<Rightarrow> Inl (FileExpected p)
      | Some (File b) \<Rightarrow> Inr b)"

text \<open>
  \<^verbatim>\<open>fs.openbin(path, "w")\<close>: the parent directory must exist and the path must not be a
  directory; the file is created, or truncated, at once.
\<close>

definition openbin_w :: "fsys \<Rightarrow> path \<Rightarrow> error + fsys" where
  "openbin_w f p =
     (if lookup f p = Some Dir then Inl (FileExpected p)
      else if \<not> isdir f (dirname p) then Inl (ResourceNotFound p)
      else Inr (f(p \<mapsto> File [])))"

definition remove_file :: "fsys \<Rightarrow> path \<Rightarrow> error + fsys" where
  "remove_file f p =
     (case lookup f p of
        None \<Rightarrow> Inl (ResourceNotFound p)
      | Some Dir \<Rightarrow> Inl (FileExpected p)
      | Some (File _) \<Rightarrow> Inr (f(p := None)))"

subsection \<open>The Priority Store\<close>

text \<open>
  \<^verbatim>\<open>fs.multifs.MultiFS\<close>: the registered filesystems with their priorities, in the
  order of registration, and the name of the one that takes the writes.
  \<^verbatim>\<open>iterate_fs\<close> yields them by descending priority, the later registration first
  among equals.
\<close>

record multifs =
  members :: "(string \<times> int) list"
  write_fs :: "string option"

definition MultiFS :: multifs where
  "MultiFS = \<lparr>members = [], write_fs = None\<rparr>"

definition add_fs :: "string \<Rightarrow> bool \<Rightarrow> int \<Rightarrow> multifs \<Rightarrow> multifs" where
  "add_fs name write priority m =
     \<lparr>members = filter (\<lambda>(n, _). n \<noteq> name) (members m) @ [(name, priority)],
      write_fs = (if write then Some name else write_fs m)\<rparr>"

definition iterate_fs :: "multifs \<Rightarrow> string list" where
  "iterate_fs m = map fst (rev (sort_key snd (members m)))"

text \<open>
  \<^verbatim>\<open>get_multi_fs(root)\<close>: the server, when the connection succeeds, before the two blob
  containers.
\<close>

definition get_multi_fs :: "bool \<Rightarrow> multifs" where
  "get_multi_fs connected =
     (let mfs = MultiFS;
          mfs = (if connected then add_fs ''ssh_fs'' True 3 mfs else mfs);
          mfs = add_fs ''profile_fs'' False 2 mfs;
          mfs = add_fs ''scenario_fs'' False 1 mfs
      in mfs)"

subsection \<open>The instance and the world\<close>

text \<open>
  A \<^verbatim>\<open>DataAccess\<close> object: its root, the directory of its local filesystem
  (\<^verbatim>\<open>server_setup.LOCAL_DIR\<close>), the name of its local filesystem and its
  \<^verbatim>\<open>MultiFS\<close>. The world holds the content of every filesystem object by name, and
  what was printed.
\<close>

record data_access =
  root :: string
  local_dir :: string
  local_fs :: string
  fs :: multifs

record world =
  store :: "string \<Rightarrow> fsys"
  stdout :: "string list"

definition print :: "string \<Rightarrow> world \<Rightarrow> world" where
  "print s w = w\<lparr>stdout := stdout w @ [s]\<rparr>"

definition put :: "string \<Rightarrow> fsys \<Rightarrow> world \<Rightarrow> world" where
  "put n f w = w\<lparr>store := (store w)(n := f)\<rparr>"

text \<open>\<^verbatim>\<open>SSHDataAccess.__init__\<close> with the \<^verbatim>\<open>fs\<close> property.\<close>

definition SSHDataAccess :: "string \<Rightarrow> string \<Rightarrow> bool \<Rightarrow> data_access" where
  "SSHDataAccess r ldir connected =
     \<lparr>root = r, local_dir = ldir, local_fs = ''local'', fs = get_multi_fs connected\<rparr>"


text \<open>\<^verbatim>\<open>MultiFS.which(path)\<close>: the first filesystem, by priority, where the path exists.\<close>

definition which :: "data_access \<Rightarrow> world \<Rightarrow> path \<Rightarrow> string option" where
  "which da w p = List.find (\<lambda>n. exists (store w n) p) (iterate_fs (fs da))"

definition check_file_exists :: "data_access \<Rightarrow> world \<Rightarrow> path \<Rightarrow> bool \<Rightarrow> error + unit" where
  "check_file_exists da w p should_exist =
     (let location = which da w p;
          exists = (location \<noteq> None)
      in if should_exist \<and> \<not> exists then Inl (NotFound p (iterate_fs (fs da)))
         else if \<not> should_exist \<and> exists then Inl (AlreadyExists p (the location))
         else Inr ())"

subsection \<open>Writing\<close>

text \<open>
  A persistence callback writes bytes to the open file and may then raise. The
  serialisers of \<^verbatim>\<open>_callback\<close> (\<^verbatim>\<open>pickle.dump\<close>, \<^verbatim>\<open>DataFrame.to_csv\<close>,
  \<^verbatim>\<open>scipy.io.savemat\<close>) are libraries: they are parameters.
\<close>

type_synonym 'd callback = "path \<Rightarrow> 'd \<Rightarrow> bytes \<times> error option"

record 'd codecs =
  pickle_dump :: "'d \<Rightarrow> bytes"
  to_csv :: "'d \<Rightarrow> bytes"
  savemat :: "'d \<Rightarrow> bytes"

definition ext_of :: "path \<Rightarrow> string" where
  "ext_of filepath = last (split_on CHR ''.'' (path_str (basename filepath)))"

definition default_callback :: "'d codecs \<Rightarrow> 'd callback" where
  "default_callback c filepath data =
     (let ext = ext_of filepath
      in if ext = ''pkl'' then (pickle_dump c data, None)
         else if ext = ''csv'' then (to_csv c data, None)
         else if ext = ''mat'' then (savemat c data, None)
         else ([], Some (UnknownExtension ext)))"

text \<open>
  \<^verbatim>\<open>DataAccess._write(fs, filepath, data, callback)\<close> on one filesystem object: the
  directories, then the open file, then the callback. When the callback raises, the
  file stays as the callback left it.
\<close>

definition write_fsys :: "fsys \<Rightarrow> path \<Rightarrow> 'd \<Rightarrow> 'd callback \<Rightarrow> (error + unit) \<times> fsys" where
  "write_fsys f filepath data callback =
     (case makedirs f (dirname filepath) of
        Inl e \<Rightarrow> (Inl e, f)
      | Inr f1 \<Rightarrow>
          (case openbin_w f1 filepath of
             Inl e \<Rightarrow> (Inl e, f1)
           | Inr f2 \<Rightarrow>
               (case callback filepath data of
                  (b, Some e) \<Rightarrow> (Inl e, f2(filepath \<mapsto> File b))
                | (b, None) \<Rightarrow> (Inr (), f2(filepath \<mapsto> File b)))))"

text \<open>The same on a named filesystem of the world.\<close>

definition write_to :: "string \<Rightarrow> world \<Rightarrow> path \<Rightarrow> 'd \<Rightarrow> 'd callback \<Rightarrow> (error + unit) \<times> world" where
  "write_to n w filepath data callback =
     (case write_fsys (store w n) filepath data callback of
        (r, f) \<Rightarrow> (r, put n f w))"

text \<open>On the \<^verbatim>\<open>MultiFS\<close>, a write goes to its write filesystem, if it has one.\<close>

definition write_to_multifs :: "data_access \<Rightarrow> world \<Rightarrow> path \<Rightarrow> 'd \<Rightarrow> 'd callback \<Rightarrow> (error + unit) \<times> world" where
  "write_to_multifs da w filepath data callback =
     (case write_fs (fs da) of
        None \<Rightarrow> (Inl (ResourceReadOnly (dirname filepath)), w)
      | Some n \<Rightarrow> write_to n w filepath data callback)"

text \<open>\<^verbatim>\<open>DataAccess.write(filepath, data, save_local, callback)\<close>.\<close>

definition "write" :: "'d codecs \<Rightarrow> data_access \<Rightarrow> world \<Rightarrow> path \<Rightarrow> 'd \<Rightarrow> bool \<Rightarrow> 'd callback option
    \<Rightarrow> (error + unit) \<times> world" where
  "write c da w filepath data save_local callback =
     (case check_file_exists da w filepath False of
        Inl e \<Rightarrow> (Inl e, w)
      | Inr _ \<Rightarrow>
          (let cb = (case callback of None \<Rightarrow> default_callback c | Some g \<Rightarrow> g);
               w1 = print (''Writing '' @ path_str filepath) w
           in case write_to_multifs da w1 filepath data cb of
                (Inl e, w2) \<Rightarrow> (Inl e, w2)
              | (Inr _, w2) \<Rightarrow>
                  (if save_local then write_to (local_fs da) w2 filepath data cb
                   else (Inr (), w2))))"

subsection \<open>Digests\<close>

text \<open>
  The two digests the code names: \<^verbatim>\<open>"sha256"\<close>, handed to the filesystem library's
  \<^verbatim>\<open>hash\<close> (which returns \<^verbatim>\<open>hashlib\<close>'s hex digest), and the \<^verbatim>\<open>sha1sum\<close> program of the
  remote command. Both follow FIPS 180-4: the message is padded to blocks of 64
  bytes, read as big-endian words, and the digest is printed in lower-case
  hexadecimal.
\<close>

type_synonym w32 = "32 word"

definition be_bytes :: "nat \<Rightarrow> nat \<Rightarrow> nat list" where
  "be_bytes n x = map (\<lambda>i. (x div 256 ^ (n - 1 - i)) mod 256) [0..<n]"

definition sha_pad :: "bytes \<Rightarrow> nat list" where
  "sha_pad m =
     (let l = length m; k = (119 - l mod 64) mod 64
      in map of_char m @ [128] @ replicate k 0 @ be_bytes 8 (8 * l))"

fun be_words :: "nat list \<Rightarrow> w32 list" where
  "be_words (a # b # c # d # r) = of_nat (((a * 256 + b) * 256 + c) * 256 + d) # be_words r"
| "be_words _ = []"


definition rotl :: "nat \<Rightarrow> w32 \<Rightarrow> w32" where
  "rotl n x = push_bit n x OR drop_bit (32 - n) x"

definition hexdigit :: "nat \<Rightarrow> char" where
  "hexdigit n = ''0123456789abcdef'' ! (n mod 16)"

definition hex32 :: "w32 \<Rightarrow> string" where
  "hex32 x = map (\<lambda>i. hexdigit (unat x div 16 ^ (7 - i))) [0..<8]"

definition hexdigest :: "w32 list \<Rightarrow> string" where
  "hexdigest ws = concat (map hex32 ws)"

text \<open>SHA-256.\<close>







text \<open>SHA-1.\<close>

fun schedule1 :: "nat \<Rightarrow> w32 list \<Rightarrow> w32 list" where
  "schedule1 0 w = w"
| "schedule1 (Suc n) w =
     (let t = length w
      in schedule1 n (w @ [rotl 1 (w ! (t - 3) XOR w ! (t - 8) XOR w ! (t - 14) XOR w ! (t - 16))]))"

fun round1 :: "w32 list \<Rightarrow> nat \<times> w32 \<Rightarrow> w32 list" where
  "round1 [a, b, c, d, e] (t, w) =
     (let (f, k) =
            (if t < 20 then ((b AND c) OR (NOT b AND d), 0x5a827999)
             else if t < 40 then (b XOR c XOR d, 0x6ed9eba1)
             else if t < 60 then ((b AND c) OR (b AND d) OR (c AND d), 0x8f1bbcdc)
             else (b XOR c XOR d, 0xca62c1d6))
      in [rotl 5 a + f + e + k + w, a, rotl 30 b, c, d])"
| "round1 v _ = v"

definition compress1 :: "w32 list \<Rightarrow> w32 list \<Rightarrow> w32 list" where
  "compress1 block h = map2 (+) h (foldl round1 h (zip [0..<80] (schedule1 64 block)))"

fun blocks1 :: "nat \<Rightarrow> w32 list \<Rightarrow> w32 list \<Rightarrow> w32 list" where
  "blocks1 0 ws h = h"
| "blocks1 (Suc n) ws h = blocks1 n (drop 16 ws) (compress1 (take 16 ws) h)"

definition sha1 :: "bytes \<Rightarrow> string" where
  "sha1 m =
     (let ws = be_words (sha_pad m)
      in hexdigest (blocks1 (length ws div 16) ws
           [0x67452301, 0xefcdab89, 0x98badcfe, 0x10325476, 0xc3d2e1f0]))"


text \<open>
  What \<^verbatim>\<open>sha1sum name\<close> prints: on its output the digest, two spaces and the name as
  given (the final newline is dropped by \<^verbatim>\<open>$(...)\<close>), or nothing and a line on its
  error channel.
\<close>

definition sha1sum :: "string \<Rightarrow> entry option \<Rightarrow> string \<times> string list" where
  "sha1sum name e =
     (case e of
        Some (File b) \<Rightarrow> (sha1 b @ ''  '' @ name, [])
      | Some Dir \<Rightarrow> ([], [''sha1sum: '' @ name @ '': Is a directory''])
      | None \<Rightarrow> ([], [''sha1sum: '' @ name @ '': No such file or directory'']))"

subsection \<open>Reading through the Priority Store\<close>

text \<open>A read on the \<^verbatim>\<open>MultiFS\<close> goes to the first filesystem that has the path.\<close>

definition multifs_readbytes :: "data_access \<Rightarrow> world \<Rightarrow> path \<Rightarrow> error + bytes" where
  "multifs_readbytes da w p =
     (case which da w p of
        None \<Rightarrow> Inl (ResourceNotFound p)
      | Some n \<Rightarrow> readbytes (store w n) p)"



subsection \<open>Copying to the local filesystem\<close>

text \<open>
  A whole file written to a filesystem: opened for writing, then filled.
\<close>

definition writebytes :: "fsys \<Rightarrow> path \<Rightarrow> bytes \<Rightarrow> error + fsys" where
  "writebytes f p b =
     (case openbin_w f p of
        Inl e \<Rightarrow> Inl e
      | Inr f1 \<Rightarrow> Inr (f1(p \<mapsto> File b)))"

text \<open>
  Inside \<^verbatim>\<open>with TempFS() as tmp_fs\<close> the computation has the world and the temporary
  filesystem. Each of the four statements of the block is one step; a run keeps every
  configuration it went through, the first one first, and stops at the first error.
\<close>

type_synonym config = "world \<times> fsys"

fun run_steps :: "(config \<Rightarrow> error + config) list \<Rightarrow> config \<Rightarrow> (error + unit) \<times> config list" where
  "run_steps [] c = (Inr (), [c])"
| "run_steps (s # ss) c =
     (case s c of
        Inl e \<Rightarrow> (Inl e, [c])
      | Inr c1 \<Rightarrow> (case run_steps ss c1 of (r, h) \<Rightarrow> (r, c # h)))"

text \<open>\<^verbatim>\<open>self.local_fs.makedirs(from_dir, recreate=True)\<close>\<close>

definition local_makedirs :: "data_access \<Rightarrow> path \<Rightarrow> config \<Rightarrow> error + config" where
  "local_makedirs da from_dir c =
     (case c of (w, tmp_fs) \<Rightarrow>
        (case makedirs (store w (local_fs da)) from_dir of
           Inl e \<Rightarrow> Inl e
         | Inr l \<Rightarrow> Inr (put (local_fs da) l w, tmp_fs)))"

text \<open>\<^verbatim>\<open>tmp_fs.makedirs(from_dir, recreate=True)\<close>\<close>

definition tmp_makedirs :: "path \<Rightarrow> config \<Rightarrow> error + config" where
  "tmp_makedirs from_dir c =
     (case c of (w, tmp_fs) \<Rightarrow>
        (case makedirs tmp_fs from_dir of
           Inl e \<Rightarrow> Inl e
         | Inr t \<Rightarrow> Inr (w, t)))"

text \<open>\<^verbatim>\<open>fs.copy.copy_file(self.fs, from_path, tmp_fs, from_path)\<close>\<close>

definition copy_file_to_tmp :: "data_access \<Rightarrow> path \<Rightarrow> config \<Rightarrow> error + config" where
  "copy_file_to_tmp da from_path c =
     (case c of (w, tmp_fs) \<Rightarrow>
        (case multifs_readbytes da w from_path of
           Inl e \<Rightarrow> Inl e
         | Inr b \<Rightarrow>
             (case writebytes tmp_fs from_path b of
                Inl e \<Rightarrow> Inl e
              | Inr t \<Rightarrow> Inr (w, t))))"

text \<open>\<^verbatim>\<open>fs.move.move_file(tmp_fs, from_path, self.local_fs, from_path)\<close>\<close>

definition move_file_to_local :: "data_access \<Rightarrow> path \<Rightarrow> config \<Rightarrow> error + config" where
  "move_file_to_local da from_path c =
     (case c of (w, tmp_fs) \<Rightarrow>
        (case readbytes tmp_fs from_path of
           Inl e \<Rightarrow> Inl e
         | Inr b \<Rightarrow>
             (case writebytes (store w (local_fs da)) from_path b of
                Inl e \<Rightarrow> Inl e
              | Inr l \<Rightarrow> Inr (put (local_fs da) l w, tmp_fs(from_path := None)))))"

text \<open>
  \<^verbatim>\<open>DataAccess.copy_from(file_name, from_dir)\<close>, with the configurations of its run.
  The temporary filesystem starts empty and is dropped at the end of the block.
\<close>

definition copy_from_run :: "data_access \<Rightarrow> world \<Rightarrow> path \<Rightarrow> path option
    \<Rightarrow> (error + unit) \<times> config list" where
  "copy_from_run da w file_name from_dir =
     (let from_dir = (case from_dir of None \<Rightarrow> [] | Some d \<Rightarrow> d);
          from_path = join from_dir file_name
      in case check_file_exists da w from_path True of
           Inl e \<Rightarrow> (Inl e, [(w, Map.empty)])
         | Inr _ \<Rightarrow>
             (let location = the (which da w from_path);
                  w1 = print (''Transferring '' @ path_str file_name @ '' from '' @ location) w
              in run_steps
                   [local_makedirs da from_dir,
                    tmp_makedirs from_dir,
                    copy_file_to_tmp da from_path,
                    move_file_to_local da from_path]
                   (w1, Map.empty)))"

definition copy_from :: "data_access \<Rightarrow> world \<Rightarrow> path \<Rightarrow> path option \<Rightarrow> (error + unit) \<times> world" where
  "copy_from da w file_name from_dir =
     (case copy_from_run da w file_name from_dir of
        (r, h) \<Rightarrow> (r, fst (last h)))"

text \<open>\<^verbatim>\<open>OSFS.getsyspath(path)\<close> of the local filesystem.\<close>

definition getsyspath :: "data_access \<Rightarrow> path \<Rightarrow> string" where
  "getsyspath da p = posixpath_join (local_dir da) (path_str p)"

text \<open>
  \<^verbatim>\<open>DataAccess.get(filepath)\<close>: what the context manager yields, the bytes of the open
  file and its path on the local machine.
\<close>

definition get :: "data_access \<Rightarrow> world \<Rightarrow> path \<Rightarrow> (error + bytes \<times> string) \<times> world" where
  "get da w filepath =
     (case (if \<not> exists (store w (local_fs da)) filepath
            then copy_from da (print (path_str filepath @ '' not found on local machine'') w)
                   (basename filepath) (Some (dirname filepath))
            else (Inr (), w)) of
        (Inl e, w1) \<Rightarrow> (Inl e, w1)
      | (Inr _, w1) \<Rightarrow>
          (case readbytes (store w1 (local_fs da)) filepath of
             Inl e \<Rightarrow> (Inl e, w1)
           | Inr b \<Rightarrow> (Inr (b, getsyspath da filepath), w1)))"

subsection \<open>Removing\<close>

text \<open>\<^verbatim>\<open>str.lower()\<close> on ASCII.\<close>

definition lower_char :: "char \<Rightarrow> char" where
  "lower_char c =
     (case map_of (zip ''ABCDEFGHIJKLMNOPQRSTUVWXYZ'' ''abcdefghijklmnopqrstuvwxyz'') c of
        None \<Rightarrow> c
      | Some l \<Rightarrow> l)"

definition lower :: "string \<Rightarrow> string" where
  "lower s = map lower_char s"

text \<open>
  \<^verbatim>\<open>DataAccess.remove(pattern, confirm)\<close>. The answer typed at the prompt is an
  argument, read only when \<open>confirm\<close> is set. The deletion itself,
  \<^verbatim>\<open>self.fs.glob(pattern).remove()\<close>, is the filesystem library's: it is the parameter
  \<open>glob_remove\<close>.
\<close>

definition remove :: "(data_access \<Rightarrow> string \<Rightarrow> world \<Rightarrow> (error + unit) \<times> world)
    \<Rightarrow> data_access \<Rightarrow> world \<Rightarrow> string \<Rightarrow> bool \<Rightarrow> string \<Rightarrow> (error + unit) \<times> world" where
  "remove glob_remove da w pattern confirm answer =
     (let w1 = (if confirm
                then print (''Delete '' @ [CHR 0x27] @ pattern @ [CHR 0x27]
                             @ ''? [y/n] (default is '' @ [CHR 0x27] @ ''n'' @ [CHR 0x27] @ '')'') w
                else w)
      in if confirm \<and> lower answer \<noteq> ''y'' then (Inr (), print ''Operation cancelled.'' w1)
         else (case glob_remove da pattern w1 of
                 (Inl e, w2) \<Rightarrow> (Inl e, w2)
               | (Inr _, w2) \<Rightarrow> (Inr (), print ''--> Done!'' w2)))"

subsection \<open>The push of the Remote-Shell variant\<close>

text \<open>
  \<^verbatim>\<open>fs.move.move_file(self.local_fs, file_name, self.fs, backup)\<close>: the bytes are read
  from the local filesystem, written to the write filesystem of the \<^verbatim>\<open>MultiFS\<close>, and
  the local file is removed.
\<close>

definition move_file_to_multifs :: "data_access \<Rightarrow> world \<Rightarrow> path \<Rightarrow> path \<Rightarrow> (error + unit) \<times> world" where
  "move_file_to_multifs da w src dst =
     (case readbytes (store w (local_fs da)) src of
        Inl e \<Rightarrow> (Inl e, w)
      | Inr b \<Rightarrow>
          (case write_fs (fs da) of
             None \<Rightarrow> (Inl (ResourceReadOnly dst), w)
           | Some n \<Rightarrow>
               (case writebytes (store w n) dst b of
                  Inl e \<Rightarrow> (Inl e, w)
                | Inr f \<Rightarrow>
                    (let w1 = put n f w
                     in case remove_file (store w1 (local_fs da)) src of
                          Inl e \<Rightarrow> (Inl e, w1)
                        | Inr l \<Rightarrow> (Inr (), put (local_fs da) l w1)))))"

text \<open>\<^verbatim>\<open>rename(2)\<close> of a file within one filesystem.\<close>

definition rename_file :: "path \<Rightarrow> path \<Rightarrow> fsys \<Rightarrow> fsys" where
  "rename_file a b f = (if a = b then f else f(b := f a, a := None))"

text \<open>
  \<^verbatim>\<open>mv SRC DST -b\<close> for a file \<open>SRC\<close>: into \<open>DST\<close> when that is a directory; a file in
  the way is first renamed to its name with \<^verbatim>\<open>~\<close> appended.
\<close>

definition mv_b :: "path \<Rightarrow> path \<Rightarrow> fsys \<Rightarrow> fsys \<times> string list" where
  "mv_b src dst f =
     (case lookup f src of
        Some (File _) \<Rightarrow>
          (let target = (if lookup f dst = Some Dir then dst @ basename src else dst)
           in if target = src then (f, [''mv: source and destination are the same file''])
              else (case lookup f target of
                      Some Dir \<Rightarrow> (f, [''mv: cannot overwrite directory with non-directory''])
                    | Some (File _) \<Rightarrow>
                        (rename_file src target (rename_file target (add_suffix target ''~'') f), [])
                    | None \<Rightarrow> (rename_file src target f, [])))
      | _ \<Rightarrow> (f, [''mv: cannot stat the source'']))"

text \<open>
  The remote command of \<^verbatim>\<open>SSHDataAccess.push\<close>, run on the filesystem of the server
  below the root:
  \<^verbatim>\<open>(flock -x 200; prev='{checksum}'; curr=$(sha1sum {original});
     if [[ $prev == $curr ]]; then mv {updated} {original} -b;
     else echo CONFLICT_ERROR 1>&2; fi) 200>{lockfile}\<close>
  with \<open>original = posixpath.join(root, rename)\<close>, \<open>updated = posixpath.join(root, backup)\<close>
  and \<open>lockfile = posixpath.join(root, "scenario.lockfile")\<close>. The redirection
  \<^verbatim>\<open>200>{lockfile}\<close> creates or empties the lock file before anything else runs. It
  returns the filesystem and the lines of the error channel. Paths and checksum are
  taken to be free of characters that the shell or the pattern match of \<^verbatim>\<open>[[ == ]]\<close>
  treat specially, so that the comparison is equality of strings.
\<close>

definition push_script :: "string \<Rightarrow> string \<Rightarrow> path \<Rightarrow> path \<Rightarrow> fsys \<Rightarrow> fsys \<times> string list" where
  "push_script r prev rename backup f =
     (let original = rename;
          updated = backup;
          lockfile = [''scenario.lockfile'']
      in if lookup f lockfile = Some Dir
         then (f, [''bash: '' @ posixpath_join r (path_str lockfile) @ '': Is a directory''])
         else (let f1 = f(lockfile \<mapsto> File []);
                   (curr, err) = sha1sum (posixpath_join r (path_str original)) (lookup f1 original)
               in if prev = curr
                  then (case mv_b updated original f1 of (f2, err2) \<Rightarrow> (f2, err @ err2))
                  else (f1, err @ [''CONFLICT_ERROR''])))"

text \<open>
  \<^verbatim>\<open>self.fs.exec_command(command)\<close>, line 313. Here \<^verbatim>\<open>self.fs\<close> is the \<^verbatim>\<open>MultiFS\<close> that
  \<^verbatim>\<open>get_multi_fs\<close> builds. The class \<^verbatim>\<open>MultiFS\<close> of the filesystem library has no method
  \<^verbatim>\<open>exec_command\<close> and hands no attribute on to its members (\<^verbatim>\<open>SSHDataAccess.checksum\<close>
  reaches the wrapper of the server through \<^verbatim>\<open>self.fs.get_fs("ssh_fs")\<close>), so the call
  raises \<^verbatim>\<open>AttributeError\<close> and the command is not run. A command is given as its effect
  on a filesystem together with the lines of its error channel.
\<close>

definition multifs_exec_command :: "data_access \<Rightarrow> world \<Rightarrow> (fsys \<Rightarrow> fsys \<times> string list)
    \<Rightarrow> error + world \<times> string list" where
  "multifs_exec_command da w command = Inl AttributeError"

text \<open>
  \<^verbatim>\<open>SSHDataAccess.push(file_name, checksum, rename)\<close>; the argument \<^verbatim>\<open>checksum\<close> is
  \<open>prev\<close>, as the remote command calls it.
\<close>

definition push :: "data_access \<Rightarrow> world \<Rightarrow> path \<Rightarrow> string \<Rightarrow> path \<Rightarrow> (error + unit) \<times> world" where
  "push da w file_name prev rename =
     (let backup = add_suffix rename ''.temp''
      in case check_file_exists da w backup False of
           Inl e \<Rightarrow> (Inl e, w)
         | Inr _ \<Rightarrow>
             (let w1 = print (''Transferring '' @ path_str rename @ '' to server'') w
              in case move_file_to_multifs da w1 file_name backup of
                   (Inl e, w2) \<Rightarrow> (Inl e, w2)
                 | (Inr _, w2) \<Rightarrow>
                     (case multifs_exec_command da w2 (push_script (root da) prev rename backup) of
                        Inl e \<Rightarrow> (Inl e, w2)
                      | Inr (w3, errors) \<Rightarrow>
                          (if length errors > 0
                           then (Inl ConflictError, foldl (\<lambda>w e. print e w) w3 errors)
                           else (Inr (), w3)))))"

text \<open>
  The checksum that the remote command recomputes for the canonical file,
  \<^verbatim>\<open>curr=$(sha1sum {original})\<close>.
\<close>

definition remote_checksum :: "string \<Rightarrow> fsys \<Rightarrow> path \<Rightarrow> string" where
  "remote_checksum r f rename = fst (sha1sum (posixpath_join r (path_str rename)) (lookup f rename))"


text \<open>
  The situation in which the staging step of a push goes through: no backup is left
  over from an earlier push, the edited file is in the local filesystem, and the
  directory of the backup path exists on the server.
\<close>

definition staging_ready :: "data_access \<Rightarrow> world \<Rightarrow> path \<Rightarrow> path \<Rightarrow> bytes \<Rightarrow> bool" where
  "staging_ready da w file_name rename new \<longleftrightarrow>
     which da w (add_suffix rename ''.temp'') = None
     \<and> lookup (store w (local_fs da)) file_name = Some (File new)
     \<and> isdir (store w ''ssh_fs'') (dirname (add_suffix rename ''.temp''))"

text \<open>The world after the staging step of a push.\<close>

definition staged :: "world \<Rightarrow> path \<Rightarrow> path \<Rightarrow> bytes \<Rightarrow> world" where
  "staged w file_name rename new =
     put ''local'' ((store w ''local'')(file_name := None))
       (put ''ssh_fs'' ((store w ''ssh_fs'')(add_suffix rename ''.temp'' \<mapsto> File new))
          (print (''Transferring '' @ path_str rename @ '' to server'') w))"

subsection \<open>An instance\<close>

text \<open>
  A Remote-Shell instance with its server connected, serialisers for text, and a world
  with a scenario list on the server and two files in the local filesystem.
\<close>

definition da_ssh :: data_access where
  "da_ssh = SSHDataAccess ''/mnt/bes/pcm'' ''/home/user/ScenarioData'' True"

definition text_codecs :: "string codecs" where
  "text_codecs = \<lparr>pickle_dump = (\<lambda>d. ''P'' @ d), to_csv = (\<lambda>d. d), savemat = (\<lambda>d. ''M'' @ d)\<rparr>"

definition world0 :: world where
  "world0 =
     \<lparr>store = (\<lambda>_. Map.empty)
        (''ssh_fs'' := [[''ScenarioList.csv''] \<mapsto> File ''id,plan''],
         ''local'' := [[''notes.txt''] \<mapsto> File ''draft'', [''cache.csv''] \<mapsto> File ''old'']),
      stdout = []\<rparr>"

text \<open>A deletion that empties every filesystem, whatever the pattern.\<close>

definition wipe :: "data_access \<Rightarrow> string \<Rightarrow> world \<Rightarrow> (error + unit) \<times> world" where
  "wipe da pattern w = (Inr (), w\<lparr>store := (\<lambda>_. Map.empty)\<rparr>)"

text \<open>
  A run has transferred a file when one of its configurations has the file in the
  temporary filesystem.
\<close>

definition transferred :: "config list \<Rightarrow> path \<Rightarrow> bool" where
  "transferred h p = list_ex (\<lambda>c. snd c p \<noteq> None) h"

text \<open>The world after one \<^verbatim>\<open>copy_from\<close> of the scenario list.\<close>

definition world1 :: world where
  "world1 = snd (copy_from da_ssh world0 [''ScenarioList.csv''] None)"

text \<open>
  A world in which the scenario list has been edited locally and the server holds the
  version it was edited from.
\<close>

definition world2 :: world where
  "world2 =
     \<lparr>store = (\<lambda>_. Map.empty)
        (''ssh_fs'' := [[''ScenarioList.csv''] \<mapsto> File ''id,plan''],
         ''local'' := [[''ScenarioList.csv''] \<mapsto> File ''id,plan,status'']),
      stdout = []\<rparr>"



section \<open>Properties\<close>

subsection \<open>The Priority Store\<close>

lemma set_iterate_fs: "set (iterate_fs m) = fst ` set (members m)"
  by (simp add: iterate_fs_def)

lemma which_None_iff:
  "which da w p = None \<longleftrightarrow> (\<forall>n \<in> fst ` set (members (fs da)). \<not> exists (store w n) p)"
  by (simp add: which_def find_None_iff set_iterate_fs)

lemma which_Some_member:
  "which da w p = Some n \<Longrightarrow> n \<in> fst ` set (members (fs da)) \<and> exists (store w n) p"
  by (auto simp: which_def find_Some_iff set_iterate_fs[symmetric] in_set_conv_nth)

subsection \<open>Directories and files\<close>

lemma mkdir_all_other: "mkdir_all f ds = Inr f1 \<Longrightarrow> q \<notin> set ds \<Longrightarrow> f1 q = f q"
  by (induction ds arbitrary: f) (auto split: option.splits entry.splits)

lemma mkdir_all_dirs: "mkdir_all f ds = Inr f1 \<Longrightarrow> d \<in> set ds \<Longrightarrow> f1 d = Some Dir"
proof (induction ds arbitrary: f)
  case Nil
  then show ?case by simp
next
  case (Cons a ds)
  then show ?case
    by (cases "d \<in> set ds") (auto split: option.splits entry.splits dest: mkdir_all_other)
qed

lemma mkdir_all_keeps_files: "mkdir_all f ds = Inr f1 \<Longrightarrow> f q = Some (File b) \<Longrightarrow> f1 q = Some (File b)"
proof (induction ds arbitrary: f)
  case Nil
  then show ?case by simp
next
  case (Cons a ds)
  from Cons.prems have "a \<noteq> q" and "mkdir_all (f(a \<mapsto> Dir)) ds = Inr f1"
    by (auto split: option.splits entry.splits)
  moreover from \<open>a \<noteq> q\<close> Cons.prems(2) have "(f(a \<mapsto> Dir)) q = Some (File b)"
    by simp
  ultimately show ?case
    using Cons.IH[of "f(a \<mapsto> Dir)"] by blast
qed

lemma dirs_of_length: "d \<in> set (dirs_of p) \<Longrightarrow> length d \<le> length p \<and> d \<noteq> []"
  by (induction p arbitrary: d) auto

lemma self_in_dirs_of: "p \<noteq> [] \<Longrightarrow> p \<in> set (dirs_of p)"
  by (induction p) auto

lemma not_in_dirs_of_dirname: "p \<noteq> [] \<Longrightarrow> p \<notin> set (dirs_of (dirname p))"
  by (cases p rule: rev_cases) (auto simp: dirname_def dest!: dirs_of_length)

lemma makedirs_isdir: "makedirs f p = Inr f1 \<Longrightarrow> isdir f1 p"
  by (cases "p = []") (auto simp: makedirs_def isdir_def lookup_def dest: mkdir_all_dirs self_in_dirs_of)

lemma makedirs_other: "makedirs f (dirname p) = Inr f1 \<Longrightarrow> p \<noteq> [] \<Longrightarrow> f1 p = f p"
  by (auto simp: makedirs_def dest: mkdir_all_other not_in_dirs_of_dirname)

lemma write_fsys_success:
  assumes "makedirs f (dirname p) = Inr f1" and "p \<noteq> []" and "f p \<noteq> Some Dir"
  shows "write_fsys f p data cb =
    (case cb p data of (b, Some e) \<Rightarrow> (Inl e, f1(p \<mapsto> File b)) | (b, None) \<Rightarrow> (Inr (), f1(p \<mapsto> File b)))"
  using assms makedirs_isdir[OF assms(1)] makedirs_other[OF assms(1) assms(2)]
  by (auto simp: write_fsys_def openbin_w_def lookup_def split: prod.splits option.splits)

lemma which_None_member:
  "which da w p = None \<Longrightarrow> (n, pr) \<in> set (members (fs da)) \<Longrightarrow> p \<noteq> [] \<and> store w n p = None"
  by (force simp: which_None_iff exists_def lookup_def split: if_splits)

subsection \<open>The instance\<close>

lemma members_get_multi_fs:
  "members (get_multi_fs True) = [(''ssh_fs'', 3), (''profile_fs'', 2), (''scenario_fs'', 1)]"
  "members (get_multi_fs False) = [(''profile_fs'', 2), (''scenario_fs'', 1)]"
  "write_fs (get_multi_fs True) = Some ''ssh_fs''"
  "write_fs (get_multi_fs False) = None"
  by (simp_all add: get_multi_fs_def add_fs_def MultiFS_def)

lemma iterate_fs_get_multi_fs:
  "iterate_fs (get_multi_fs True) = [''ssh_fs'', ''profile_fs'', ''scenario_fs'']"
  "iterate_fs (get_multi_fs False) = [''profile_fs'', ''scenario_fs'']"
  by (simp_all add: iterate_fs_def members_get_multi_fs)

lemma da_ssh_simps:
  "fs da_ssh = get_multi_fs True" "local_fs da_ssh = ''local''" "root da_ssh = ''/mnt/bes/pcm''"
  "local_dir da_ssh = ''/home/user/ScenarioData''"
  by (simp_all add: da_ssh_def SSHDataAccess_def)

subsection \<open>Writing\<close>

text \<open>
  C4. A path that is present in a backend of the Priority Store is not written:
  \<open>write\<close> raises the already-exists error, naming a backend that holds the path, and
  the world it returns is the world it was given, so the content of every filesystem
  object (the local one too) is what it was.
\<close>

theorem write_existing_raises_and_keeps:
  assumes "(n, pr) \<in> set (members (fs da))"
    and "exists (store w n) p"
  shows "\<exists>loc. write c da w p data save_local callback = (Inl (AlreadyExists p loc), w)
          \<and> exists (store w loc) p"
proof -
  from assms(1) have "fst (n, pr) \<in> fst ` set (members (fs da))"
    by (rule imageI)
  with assms(2) have "which da w p \<noteq> None"
    by (auto simp: which_None_iff)
  then obtain loc where loc: "which da w p = Some loc"
    by blast
  then have "exists (store w loc) p"
    by (simp add: which_Some_member)
  moreover from loc have "write c da w p data save_local callback = (Inl (AlreadyExists p loc), w)"
    by (simp add: write_def check_file_exists_def)
  ultimately show ?thesis
    by blast
qed

theorem write_existing_witness:
  "(''ssh_fs'', 3) \<in> set (members (fs da_ssh))
   \<and> exists (store world0 ''ssh_fs'') [''ScenarioList.csv'']
   \<and> (\<exists>loc. write text_codecs da_ssh world0 [''ScenarioList.csv''] ''x'' True None
          = (Inl (AlreadyExists [''ScenarioList.csv''] loc), world0)
        \<and> exists (store world0 loc) [''ScenarioList.csv''])"
proof -
  have m: "(''ssh_fs'', 3) \<in> set (members (fs da_ssh))"
    by (simp add: da_ssh_simps members_get_multi_fs)
  have e: "exists (store world0 ''ssh_fs'') [''ScenarioList.csv'']"
    by (simp add: world0_def exists_def lookup_def)
  from m e write_existing_raises_and_keeps[OF m e, of text_codecs "''x''" True None]
  show ?thesis by blast
qed

text \<open>
  C9. For a path that is absent from the Priority Store and whose extension is none of
  \<^verbatim>\<open>pkl\<close>, \<^verbatim>\<open>csv\<close>, \<^verbatim>\<open>mat\<close>, \<open>write\<close> with the default callback raises the
  unknown-extension error only after the parent directories have been created in the
  write filesystem and the file has been opened there: the directories exist and an
  empty file is left at the path. (The write filesystem is registered and its
  directories can be created, that is, no file is in their way.)
\<close>

theorem write_unknown_extension_leaves_empty_file:
  assumes absent: "which da w p = None"
    and ext: "ext_of p \<notin> {''pkl'', ''csv'', ''mat''}"
    and target: "write_fs (fs da) = Some n" "(n, pr) \<in> set (members (fs da))"
    and dirs: "makedirs (store w n) (dirname p) = Inr f1"
  shows "write c da w p data save_local None =
           (Inl (UnknownExtension (ext_of p)),
            put n (f1(p \<mapsto> File [])) (print (''Writing '' @ path_str p) w))
         \<and> isdir f1 (dirname p)
         \<and> store (snd (write c da w p data save_local None)) n p = Some (File [])"
proof -
  from absent target(2) have p: "p \<noteq> []" "store w n p = None"
    by (auto dest: which_None_member)
  have cb: "default_callback c p data = ([], Some (UnknownExtension (ext_of p)))"
    using ext by (simp add: default_callback_def)
  let ?w1 = "print (''Writing '' @ path_str p) w"
  have "store ?w1 n = store w n"
    by (simp add: print_def)
  with dirs p have "write_fsys (store ?w1 n) p data (default_callback c)
      = (Inl (UnknownExtension (ext_of p)), f1(p \<mapsto> File []))"
    by (simp add: write_fsys_success cb)
  then have "write c da w p data save_local None =
           (Inl (UnknownExtension (ext_of p)), put n (f1(p \<mapsto> File [])) ?w1)"
    using absent target(1)
    by (simp add: write_def check_file_exists_def write_to_multifs_def write_to_def)
  moreover have "isdir f1 (dirname p)"
    using dirs by (rule makedirs_isdir)
  ultimately show ?thesis
    by (simp add: put_def)
qed

lemma which_world0_absent:
  "which da_ssh world0 [''plots'', ''fig.png''] = None"
  by (simp add: which_def da_ssh_simps iterate_fs_get_multi_fs world0_def exists_def lookup_def)

theorem write_unknown_extension_witness:
  "which da_ssh world0 [''plots'', ''fig.png''] = None
   \<and> ext_of [''plots'', ''fig.png''] \<notin> {''pkl'', ''csv'', ''mat''}
   \<and> write_fs (fs da_ssh) = Some ''ssh_fs''
   \<and> (''ssh_fs'', 3) \<in> set (members (fs da_ssh))
   \<and> makedirs (store world0 ''ssh_fs'') (dirname [''plots'', ''fig.png''])
        = Inr ((store world0 ''ssh_fs'')([''plots''] \<mapsto> Dir))
   \<and> fst (write text_codecs da_ssh world0 [''plots'', ''fig.png''] ''x'' True None)
        = Inl (UnknownExtension ''png'')
   \<and> store (snd (write text_codecs da_ssh world0 [''plots'', ''fig.png''] ''x'' True None))
        ''ssh_fs'' [''plots'', ''fig.png''] = Some (File [])"
proof -
  have a: "which da_ssh world0 [''plots'', ''fig.png''] = None"
    by (rule which_world0_absent)
  have b: "ext_of [''plots'', ''fig.png''] \<notin> {''pkl'', ''csv'', ''mat''}"
    by (simp add: ext_of_def basename_def)
  have e: "ext_of [''plots'', ''fig.png''] = ''png''"
    by (simp add: ext_of_def basename_def)
  have c: "write_fs (fs da_ssh) = Some ''ssh_fs''"
    by (simp add: da_ssh_simps members_get_multi_fs)
  have d: "(''ssh_fs'', 3) \<in> set (members (fs da_ssh))"
    by (simp add: da_ssh_simps members_get_multi_fs)
  have m: "makedirs (store world0 ''ssh_fs'') (dirname [''plots'', ''fig.png''])
        = Inr ((store world0 ''ssh_fs'')([''plots''] \<mapsto> Dir))"
    by (simp add: makedirs_def dirname_def world0_def)
  note t = write_unknown_extension_leaves_empty_file[OF a b c d m, of text_codecs "''x''" True]
  from t[THEN conjunct1] e
  have r: "fst (write text_codecs da_ssh world0 [''plots'', ''fig.png''] ''x'' True None)
        = Inl (UnknownExtension ''png'')"
    by simp
  from a b c d m r t[THEN conjunct2, THEN conjunct2] show ?thesis
    by (intro conjI)
qed

text \<open>
  C10. In the Remote-Shell variant the local filesystem is not a member of the Priority
  Store, so the existence check of \<open>write\<close> does not see it: for a path that is a file
  in the local filesystem only, \<open>write\<close> with \<open>save_local\<close> set does not raise the
  already-exists error; it returns normally and the local copy holds the new bytes.
  (The server is connected, the directories can be created on both sides and the
  callback does not raise.)
\<close>

theorem ssh_write_ignores_local_copy:
  assumes da: "da = SSHDataAccess r ldir True"
    and local: "store w ''local'' p = Some (File old)"
    and absent: "which da w p = None"
    and rdirs: "makedirs (store w ''ssh_fs'') (dirname p) = Inr f1"
    and ldirs: "makedirs (store w ''local'') (dirname p) = Inr l1"
    and cb: "(case callback of None \<Rightarrow> default_callback c | Some g \<Rightarrow> g) p data = (b, None)"
  shows "write c da w p data True callback =
           (Inr (), put ''local'' (l1(p \<mapsto> File b))
                      (put ''ssh_fs'' (f1(p \<mapsto> File b)) (print (''Writing '' @ path_str p) w)))
         \<and> store (snd (write c da w p data True callback)) ''local'' p = Some (File b)"
proof -
  let ?cb = "case callback of None \<Rightarrow> default_callback c | Some g \<Rightarrow> g"
  let ?w1 = "print (''Writing '' @ path_str p) w"
  let ?w2 = "put ''ssh_fs'' (f1(p \<mapsto> File b)) ?w1"
  have mem: "(''ssh_fs'', 3) \<in> set (members (fs da))" and wfs: "write_fs (fs da) = Some ''ssh_fs''"
    and loc: "local_fs da = ''local''"
    by (simp_all add: da SSHDataAccess_def members_get_multi_fs)
  from absent mem have p: "p \<noteq> []" "store w ''ssh_fs'' p = None"
    by (auto dest: which_None_member)
  have "write_fsys (store ?w1 ''ssh_fs'') p data ?cb = (Inr (), f1(p \<mapsto> File b))"
    using rdirs p cb by (simp add: write_fsys_success print_def)
  then have remote: "write_to_multifs da ?w1 p data ?cb = (Inr (), ?w2)"
    using wfs by (simp add: write_to_multifs_def write_to_def)
  have "store ?w2 ''local'' = store w ''local''"
    by (simp add: put_def print_def)
  then have "write_fsys (store ?w2 ''local'') p data ?cb = (Inr (), l1(p \<mapsto> File b))"
    using ldirs p(1) local cb by (simp add: write_fsys_success)
  then have "write_to ''local'' ?w2 p data ?cb = (Inr (), put ''local'' (l1(p \<mapsto> File b)) ?w2)"
    by (simp add: write_to_def)
  with remote absent loc
  have "write c da w p data True callback = (Inr (), put ''local'' (l1(p \<mapsto> File b)) ?w2)"
    by (simp add: write_def check_file_exists_def)
  then show ?thesis
    by (simp add: put_def)
qed

theorem ssh_write_ignores_local_copy_witness:
  "da_ssh = SSHDataAccess ''/mnt/bes/pcm'' ''/home/user/ScenarioData'' True
   \<and> store world0 ''local'' [''cache.csv''] = Some (File ''old'')
   \<and> which da_ssh world0 [''cache.csv''] = None
   \<and> makedirs (store world0 ''ssh_fs'') (dirname [''cache.csv'']) = Inr (store world0 ''ssh_fs'')
   \<and> makedirs (store world0 ''local'') (dirname [''cache.csv'']) = Inr (store world0 ''local'')
   \<and> default_callback text_codecs [''cache.csv''] ''new'' = (''new'', None)
   \<and> fst (write text_codecs da_ssh world0 [''cache.csv''] ''new'' True None) = Inr ()
   \<and> store (snd (write text_codecs da_ssh world0 [''cache.csv''] ''new'' True None))
        ''local'' [''cache.csv''] = Some (File ''new'')"
proof -
  have a: "da_ssh = SSHDataAccess ''/mnt/bes/pcm'' ''/home/user/ScenarioData'' True"
    by (simp add: da_ssh_def)
  have b: "store world0 ''local'' [''cache.csv''] = Some (File ''old'')"
    by (simp add: world0_def)
  have c: "which da_ssh world0 [''cache.csv''] = None"
    by (simp add: which_def da_ssh_simps iterate_fs_get_multi_fs world0_def exists_def lookup_def)
  have d: "makedirs (store world0 ''ssh_fs'') (dirname [''cache.csv'']) = Inr (store world0 ''ssh_fs'')"
    by (simp add: makedirs_def dirname_def)
  have e: "makedirs (store world0 ''local'') (dirname [''cache.csv'']) = Inr (store world0 ''local'')"
    by (simp add: makedirs_def dirname_def)
  have f: "default_callback text_codecs [''cache.csv''] ''new'' = (''new'', None)"
    by (simp add: default_callback_def ext_of_def basename_def text_codecs_def)
  have f': "(case None of None \<Rightarrow> default_callback text_codecs | Some g \<Rightarrow> g) [''cache.csv''] ''new''
      = (''new'', None)"
    using f by simp
  note t = ssh_write_ignores_local_copy[OF a b c d e f']
  from t[THEN conjunct1] have r: "fst (write text_codecs da_ssh world0 [''cache.csv''] ''new'' True None) = Inr ()"
    by simp
  from a b c d e f r t[THEN conjunct2] show ?thesis
    by (intro conjI)
qed

subsection \<open>Removing\<close>

text \<open>
  C7. \<open>remove\<close> with \<open>confirm\<close> set and an answer that is not \<^verbatim>\<open>y\<close> (in either case)
  returns without deleting: the content of every filesystem is what it was, whatever
  the deletion would have done. (The answer \<^verbatim>\<open>Y\<close> is a yes: \<^verbatim>\<open>confirmed.lower()\<close> is
  compared.)
\<close>

theorem remove_declined_deletes_nothing:
  assumes "lower answer \<noteq> ''y''"
  shows "fst (remove glob_remove da w pattern True answer) = Inr ()
       \<and> store (snd (remove glob_remove da w pattern True answer)) = store w"
  using assms by (simp add: remove_def print_def)

lemma lower_n: "lower ''n'' \<noteq> ''y''"
  by (simp add: lower_def lower_char_def)

theorem remove_declined_witness:
  "lower ''n'' \<noteq> ''y''
   \<and> fst (remove wipe da_ssh world0 ''*.csv'' True ''n'') = Inr ()
   \<and> store (snd (remove wipe da_ssh world0 ''*.csv'' True ''n'')) = store world0
   \<and> lower ''Y'' = ''y''
   \<and> store (snd (remove wipe da_ssh world0 ''*.csv'' True ''Y'')) \<noteq> store world0"
proof -
  have a: "lower ''n'' \<noteq> ''y''"
    by (rule lower_n)
  have y: "lower ''Y'' = ''y''"
    by (simp add: lower_def lower_char_def)
  have "store (snd (remove wipe da_ssh world0 ''*.csv'' True ''Y'')) ''local'' [''cache.csv''] = None"
    by (simp add: remove_def y wipe_def print_def)
  moreover have "store world0 ''local'' [''cache.csv''] = Some (File ''old'')"
    by (simp add: world0_def)
  ultimately have b: "store (snd (remove wipe da_ssh world0 ''*.csv'' True ''Y'')) \<noteq> store world0"
    by auto
  from a y b remove_declined_deletes_nothing[OF a, of wipe da_ssh world0 "''*.csv''"] show ?thesis
    by blast
qed

subsection \<open>Reading and copying\<close>

text \<open>
  C6, as amended. It is \<open>get\<close> that looks at the local filesystem first: for a file
  present there, \<open>get\<close> transfers nothing (the world is returned as it was), yields the
  local bytes and the path on the local machine, and does the same when called again.
  \<open>copy_from\<close> has no such check, as the counterexample below shows.
\<close>

theorem get_cached_makes_no_transfer:
  assumes "lookup (store w (local_fs da)) p = Some (File b)"
  shows "get da w p = (Inr (b, getsyspath da p), w)
       \<and> get da (snd (get da w p)) p = get da w p"
proof -
  from assms have "get da w p = (Inr (b, getsyspath da p), w)"
    by (simp add: get_def exists_def readbytes_def)
  then show ?thesis
    by simp
qed

theorem get_cached_witness:
  "lookup (store world0 (local_fs da_ssh)) [''cache.csv''] = Some (File ''old'')
   \<and> get da_ssh world0 [''cache.csv''] = (Inr (''old'', ''/home/user/ScenarioData/cache.csv''), world0)
   \<and> get da_ssh (snd (get da_ssh world0 [''cache.csv''])) [''cache.csv'']
     = get da_ssh world0 [''cache.csv'']"
proof -
  have a: "lookup (store world0 (local_fs da_ssh)) [''cache.csv''] = Some (File ''old'')"
    by (simp add: lookup_def da_ssh_simps world0_def)
  have b: "getsyspath da_ssh [''cache.csv''] = ''/home/user/ScenarioData/cache.csv''"
    by (simp add: getsyspath_def posixpath_join_def da_ssh_simps)
  from a b get_cached_makes_no_transfer[OF a] show ?thesis
    by simp
qed

lemma which_cong:
  assumes "\<And>n. exists (store w' n) p = exists (store w n) p"
  shows "which da w' p = which da w p"
  by (simp add: which_def assms)

lemma multifs_readbytes_cong:
  assumes "\<And>n. lookup (store w' n) p = lookup (store w n) p"
  shows "multifs_readbytes da w' p = multifs_readbytes da w p"
proof -
  have "which da w' p = which da w p"
    by (rule which_cong) (simp add: exists_def assms)
  then show ?thesis
    by (simp add: multifs_readbytes_def readbytes_def assms split: option.splits)
qed

lemma longer_not_in_dirs_of: "f \<noteq> [] \<Longrightarrow> d @ f \<notin> set (dirs_of d)"
  by (auto dest!: dirs_of_length)

lemma writebytes_Inr:
  "writebytes f p b = Inr f1 \<Longrightarrow> f1 = f(p \<mapsto> File b) \<and> lookup f p \<noteq> Some Dir \<and> isdir f (dirname p)"
  by (auto simp: writebytes_def openbin_w_def split: if_splits)

lemma copy_from_run_success:
  assumes run: "copy_from_run da w file_name from_dir = (Inr (), h)"
  defines "d \<equiv> (case from_dir of None \<Rightarrow> [] | Some x \<Rightarrow> x)"
  defines "p \<equiv> join d file_name"
  defines "L \<equiv> local_fs da"
  obtains b l1 t1 w1 where
    "multifs_readbytes da w p = Inr b"
    "store w1 = store w"
    "makedirs (store w L) d = Inr l1"
    "l1 p = store w L p"
    "t1 p = None"
    "h = [(w1, Map.empty), (put L l1 w1, Map.empty), (put L l1 w1, t1),
          (put L l1 w1, t1(p \<mapsto> File b)),
          (put L (l1(p \<mapsto> File b)) (put L l1 w1), (t1(p \<mapsto> File b))(p := None))]"
proof -
  define w1 where "w1 = print (''Transferring '' @ path_str file_name @ '' from '' @ the (which da w p)) w"
  have w1: "store w1 = store w"
    by (simp add: w1_def print_def)
  from run have steps: "run_steps [local_makedirs da d, tmp_makedirs d, copy_file_to_tmp da p,
      move_file_to_local da p] (w1, Map.empty) = (Inr (), h)"
    by (auto simp: copy_from_run_def Let_def d_def p_def w1_def split: sum.splits)
  then obtain c1 c2 c3 c4 where c:
    "local_makedirs da d (w1, Map.empty) = Inr c1" "tmp_makedirs d c1 = Inr c2"
    "copy_file_to_tmp da p c2 = Inr c3" "move_file_to_local da p c3 = Inr c4"
    "h = [(w1, Map.empty), c1, c2, c3, c4]"
    by (auto split: sum.splits prod.splits)
  from c(1) obtain l1 where l1: "makedirs (store w L) d = Inr l1" "c1 = (put L l1 w1, Map.empty)"
    by (auto simp: local_makedirs_def L_def w1 split: sum.splits)
  from c(2) l1(2) obtain t1 where t1: "makedirs Map.empty d = Inr t1" "c2 = (put L l1 w1, t1)"
    by (auto simp: tmp_makedirs_def split: sum.splits)
  from c(3) t1(2) obtain b t2 where b: "multifs_readbytes da (put L l1 w1) p = Inr b"
    "writebytes t1 p b = Inr t2" "c3 = (put L l1 w1, t2)"
    by (auto simp: copy_file_to_tmp_def split: sum.splits)
  from b(2) have t2: "t2 = t1(p \<mapsto> File b)" "lookup t1 p \<noteq> Some Dir"
    by (auto dest: writebytes_Inr)
  have fn: "file_name \<noteq> []"
  proof
    assume "file_name = []"
    then have "p = d" by (simp add: p_def join_def)
    with makedirs_isdir[OF t1(1)] t2(2) show False
      by (simp add: isdir_def)
  qed
  then have notin: "p \<notin> set (dirs_of d)" and pne: "p \<noteq> []"
    by (auto simp: p_def join_def dest: longer_not_in_dirs_of)
  from l1(1) notin have l1p: "l1 p = store w L p"
    by (auto simp: makedirs_def dest: mkdir_all_other)
  from t1(1) notin have t1p: "t1 p = None"
    by (auto simp: makedirs_def dest: mkdir_all_other)
  have "multifs_readbytes da (put L l1 w1) p = multifs_readbytes da w p"
    by (rule multifs_readbytes_cong) (simp add: put_def w1 lookup_def l1p)
  with b(1) have rb: "multifs_readbytes da w p = Inr b"
    by simp
  from c(4) b(3) t2(1) pne have c4: "c4 = (put L (l1(p \<mapsto> File b)) (put L l1 w1), (t1(p \<mapsto> File b))(p := None))"
    by (auto simp: move_file_to_local_def readbytes_def lookup_def L_def put_def
             split: sum.splits dest!: writebytes_Inr)
  show thesis
    by (rule that[of b w1 l1 t1]) (simp_all add: rb w1 l1 l1p t1p c(5) t1(2) b(3) t2(1) c4)
qed

text \<open>
  C5. When \<open>copy_from\<close> succeeds, its run starts with an empty temporary filesystem
  and ends with two configurations: in the first
  the temporary filesystem holds the whole file, as read from the Priority Store, and
  in every configuration up to it the local filesystem has at the final path what it
  had before; in the second, reached by the single move, the local filesystem holds the
  whole file and the temporary filesystem no longer has it. So the final local path
  never holds a part of the file. When the file is absent from every backend,
  \<open>copy_from\<close> raises the not-found error and returns the world unchanged.
\<close>

theorem copy_from_stages_then_moves:
  fixes da :: data_access and w :: world and file_name :: path and from_dir :: "path option"
  defines "from_path \<equiv> join (case from_dir of None \<Rightarrow> [] | Some d \<Rightarrow> d) file_name"
  shows "(copy_from_run da w file_name from_dir = (Inr (), h) \<longrightarrow>
           (\<exists>b pre c c'.
              multifs_readbytes da w from_path = Inr b
            \<and> h = pre @ [c, c'] \<and> snd (hd h) = Map.empty
            \<and> (\<forall>x \<in> set (pre @ [c]).
                  store (fst x) (local_fs da) from_path = store w (local_fs da) from_path)
            \<and> snd c from_path = Some (File b)
            \<and> store (fst c') (local_fs da) from_path = Some (File b)
            \<and> snd c' from_path = None))
       \<and> (which da w from_path = None \<longrightarrow>
            copy_from da w file_name from_dir = (Inl (NotFound from_path (iterate_fs (fs da))), w))"
proof (intro conjI impI)
  assume "copy_from_run da w file_name from_dir = (Inr (), h)"
  then obtain b l1 t1 w1 where f:
    "multifs_readbytes da w from_path = Inr b"
    "store w1 = store w"
    "l1 from_path = store w (local_fs da) from_path"
    "h = [(w1, Map.empty), (put (local_fs da) l1 w1, Map.empty), (put (local_fs da) l1 w1, t1),
          (put (local_fs da) l1 w1, t1(from_path \<mapsto> File b)),
          (put (local_fs da) (l1(from_path \<mapsto> File b)) (put (local_fs da) l1 w1),
           (t1(from_path \<mapsto> File b))(from_path := None))]"
    unfolding from_path_def by (rule copy_from_run_success)
  let ?pre = "[(w1, Map.empty), (put (local_fs da) l1 w1, Map.empty), (put (local_fs da) l1 w1, t1)]"
  let ?c = "(put (local_fs da) l1 w1, t1(from_path \<mapsto> File b))"
  let ?c' = "(put (local_fs da) (l1(from_path \<mapsto> File b)) (put (local_fs da) l1 w1),
           (t1(from_path \<mapsto> File b))(from_path := None))"
  have "h = ?pre @ [?c, ?c'] \<and> snd (hd h) = Map.empty"
    by (simp add: f(4))
  moreover have "\<forall>x \<in> set (?pre @ [?c]).
      store (fst x) (local_fs da) from_path = store w (local_fs da) from_path"
    by (simp add: put_def f(2) f(3))
  moreover have "snd ?c from_path = Some (File b)"
    by simp
  moreover have "store (fst ?c') (local_fs da) from_path = Some (File b)"
    by (simp add: put_def)
  moreover have "snd ?c' from_path = None"
    by simp
  ultimately show "\<exists>b pre c c'.
              multifs_readbytes da w from_path = Inr b
            \<and> h = pre @ [c, c'] \<and> snd (hd h) = Map.empty
            \<and> (\<forall>x \<in> set (pre @ [c]).
                  store (fst x) (local_fs da) from_path = store w (local_fs da) from_path)
            \<and> snd c from_path = Some (File b)
            \<and> store (fst c') (local_fs da) from_path = Some (File b)
            \<and> snd c' from_path = None"
    using f(1) by blast
next
  assume "which da w from_path = None"
  then show "copy_from da w file_name from_dir = (Inl (NotFound from_path (iterate_fs (fs da))), w)"
    by (simp add: copy_from_def copy_from_run_def check_file_exists_def from_path_def)
qed

lemmas run_defs = copy_from_run_def check_file_exists_def which_def local_makedirs_def tmp_makedirs_def
  copy_file_to_tmp_def move_file_to_local_def multifs_readbytes_def readbytes_def writebytes_def
  openbin_w_def makedirs_def isdir_def lookup_def exists_def dirname_def join_def put_def print_def
  Let_def

lemma run0_ok: "fst (copy_from_run da_ssh world0 [''ScenarioList.csv''] None) = Inr ()"
  by (simp add: run_defs da_ssh_simps iterate_fs_get_multi_fs world0_def)

theorem copy_from_stages_witness:
  "fst (copy_from_run da_ssh world0 [''ScenarioList.csv''] None) = Inr ()
   \<and> (\<exists>pre c c'.
          multifs_readbytes da_ssh world0 [''ScenarioList.csv''] = Inr ''id,plan''
        \<and> snd (copy_from_run da_ssh world0 [''ScenarioList.csv''] None) = pre @ [c, c']
        \<and> snd (hd (snd (copy_from_run da_ssh world0 [''ScenarioList.csv''] None))) = Map.empty
        \<and> (\<forall>x \<in> set (pre @ [c]). store (fst x) ''local'' [''ScenarioList.csv''] = None)
        \<and> snd c [''ScenarioList.csv''] = Some (File ''id,plan'')
        \<and> store (fst c') ''local'' [''ScenarioList.csv''] = Some (File ''id,plan'')
        \<and> snd c' [''ScenarioList.csv''] = None)
   \<and> which da_ssh world0 [''missing.csv''] = None
   \<and> copy_from da_ssh world0 [''missing.csv''] None
       = (Inl (NotFound [''missing.csv''] [''ssh_fs'', ''profile_fs'', ''scenario_fs'']), world0)"
proof -
  let ?f = "[''ScenarioList.csv'']"
  have ok: "copy_from_run da_ssh world0 ?f None = (Inr (), snd (copy_from_run da_ssh world0 ?f None))"
    using run0_ok by (simp add: prod_eq_iff)
  have rd: "multifs_readbytes da_ssh world0 ?f = Inr ''id,plan''"
    by (simp add: run_defs da_ssh_simps iterate_fs_get_multi_fs world0_def)
  have l0: "store world0 ''local'' ?f = None"
    by (simp add: world0_def)
  have absent: "which da_ssh world0 [''missing.csv''] = None"
    by (simp add: run_defs da_ssh_simps iterate_fs_get_multi_fs world0_def)
  note t1 = copy_from_stages_then_moves[of da_ssh world0 ?f None "snd (copy_from_run da_ssh world0 ?f None)",
      THEN conjunct1, rule_format, OF ok]
  note t2 = copy_from_stages_then_moves[of da_ssh world0 "[''missing.csv'']" None,
      THEN conjunct2, rule_format]
  have j: "join [] ?f = ?f" "join [] [''missing.csv''] = [''missing.csv'']"
    by (simp_all add: join_def)
  from t1 have "\<exists>pre c c'.
          multifs_readbytes da_ssh world0 ?f = Inr ''id,plan''
        \<and> snd (copy_from_run da_ssh world0 ?f None) = pre @ [c, c']
        \<and> snd (hd (snd (copy_from_run da_ssh world0 ?f None))) = Map.empty
        \<and> (\<forall>x \<in> set (pre @ [c]). store (fst x) ''local'' ?f = None)
        \<and> snd c ?f = Some (File ''id,plan'')
        \<and> store (fst c') ''local'' ?f = Some (File ''id,plan'')
        \<and> snd c' ?f = None"
    unfolding j rd da_ssh_simps l0 option.case by blast
  moreover from t2 absent have "copy_from da_ssh world0 [''missing.csv''] None
       = (Inl (NotFound [''missing.csv''] [''ssh_fs'', ''profile_fs'', ''scenario_fs'']), world0)"
    by (simp add: j da_ssh_simps iterate_fs_get_multi_fs)
  ultimately show ?thesis
    using run0_ok absent by blast
qed

text \<open>
  C6, as stated, fails: after one \<open>copy_from\<close> the scenario list is in the local
  filesystem, and a second \<open>copy_from\<close> transfers it again from the server into the
  temporary filesystem and prints the transfer once more. (It returns no path either.)
\<close>

theorem copy_from_again_counterexample:
  "lookup (store world1 ''local'') [''ScenarioList.csv''] = Some (File ''id,plan'')
   \<and> fst (copy_from_run da_ssh world1 [''ScenarioList.csv''] None) = Inr ()
   \<and> transferred (snd (copy_from_run da_ssh world1 [''ScenarioList.csv''] None)) [''ScenarioList.csv'']
   \<and> stdout (snd (copy_from da_ssh world1 [''ScenarioList.csv''] None))
      = stdout world1 @ [''Transferring ScenarioList.csv from ssh_fs'']"
proof -
  have s: "store world1 = (store world0)(''local'' := (store world0 ''local'')([''ScenarioList.csv''] \<mapsto> File ''id,plan''))"
    by (simp add: world1_def copy_from_def run_defs da_ssh_simps iterate_fs_get_multi_fs world0_def)
  have a: "lookup (store world1 ''local'') [''ScenarioList.csv''] = Some (File ''id,plan'')"
    by (simp add: s lookup_def)
  have b: "fst (copy_from_run da_ssh world1 [''ScenarioList.csv''] None) = Inr ()"
    by (simp add: run_defs da_ssh_simps iterate_fs_get_multi_fs s world0_def)
  have c: "transferred (snd (copy_from_run da_ssh world1 [''ScenarioList.csv''] None)) [''ScenarioList.csv'']"
    by (simp add: transferred_def run_defs da_ssh_simps iterate_fs_get_multi_fs s world0_def)
  have d: "stdout (snd (copy_from da_ssh world1 [''ScenarioList.csv''] None))
      = stdout world1 @ [''Transferring ScenarioList.csv from ssh_fs'']"
    by (simp add: copy_from_def run_defs da_ssh_simps iterate_fs_get_multi_fs s world0_def)
  from a b c d show ?thesis
    by (intro conjI)
qed

subsection \<open>Digests\<close>


























subsection \<open>The push of the Remote-Shell variant\<close>

lemma push_staging:
  assumes da: "da = SSHDataAccess r ldir True"
    and ready: "staging_ready da w file_name rename new"
  shows "move_file_to_multifs da (print (''Transferring '' @ path_str rename @ '' to server'') w)
           file_name (add_suffix rename ''.temp'') = (Inr (), staged w file_name rename new)"
proof -
  let ?b = "add_suffix rename ''.temp''"
  have cfg: "local_fs da = ''local''" "write_fs (fs da) = Some ''ssh_fs''"
    "(''ssh_fs'', 3) \<in> set (members (fs da))"
    by (simp_all add: da SSHDataAccess_def members_get_multi_fs)
  from ready cfg(3) have nb: "?b \<noteq> []" "store w ''ssh_fs'' ?b = None"
    by (auto simp: staging_ready_def dest: which_None_member)
  from ready have src: "lookup (store w ''local'') file_name = Some (File new)"
    and par: "isdir (store w ''ssh_fs'') (dirname ?b)"
    by (simp_all add: staging_ready_def cfg)
  from nb par have wr: "writebytes (store w ''ssh_fs'') ?b new = Inr ((store w ''ssh_fs'')(?b \<mapsto> File new))"
    by (simp add: writebytes_def openbin_w_def lookup_def)
  from src show ?thesis
    by (simp add: move_file_to_multifs_def cfg readbytes_def print_def wr put_def remove_file_def
        staged_def)
qed

lemma push_after_staging:
  assumes da: "da = SSHDataAccess r ldir True"
    and ready: "staging_ready da w file_name rename new"
  shows "push da w file_name prev rename = (Inl AttributeError, staged w file_name rename new)"
proof -
  from ready have "check_file_exists da w (add_suffix rename ''.temp'') False = Inr ()"
    by (simp add: staging_ready_def check_file_exists_def)
  then show ?thesis
    using push_staging[OF da ready]
    by (simp add: push_def Let_def multifs_exec_command_def)
qed

lemma push_stale_backup:
  assumes da: "da = SSHDataAccess r ldir True"
    and stale: "exists (store w ''ssh_fs'') (add_suffix rename ''.temp'')"
  shows "push da w file_name prev rename
           = (Inl (AlreadyExists (add_suffix rename ''.temp'') ''ssh_fs''), w)"
proof -
  from stale have "which da w (add_suffix rename ''.temp'') = Some ''ssh_fs''"
    by (simp add: which_def da SSHDataAccess_def iterate_fs_get_multi_fs)
  then show ?thesis
    by (simp add: push_def check_file_exists_def)
qed

lemma push_never_returns: "fst (push da w file_name prev rename) \<noteq> Inr ()"
  by (auto simp: push_def Let_def multifs_exec_command_def split: sum.splits prod.splits)

lemma push_never_conflicts: "fst (push da w file_name prev rename) \<noteq> Inl ConflictError"
  by (auto simp: push_def Let_def multifs_exec_command_def check_file_exists_def
      move_file_to_multifs_def readbytes_def writebytes_def openbin_w_def remove_file_def
      split: sum.splits prod.splits option.splits entry.splits if_splits)

lemma world2_ready:
  "staging_ready da_ssh world2 [''ScenarioList.csv''] [''ScenarioList.csv''] ''id,plan,status''"
  by (simp add: staging_ready_def which_def da_ssh_simps iterate_fs_get_multi_fs world2_def
      exists_def lookup_def isdir_def dirname_def add_suffix_def)

lemma da_ssh_unfold: "da_ssh = SSHDataAccess ''/mnt/bes/pcm'' ''/home/user/ScenarioData'' True"
  by (simp add: da_ssh_def)

lemma staged_world2:
  "lookup (store (staged world2 [''ScenarioList.csv''] [''ScenarioList.csv''] ''id,plan,status'')
      ''ssh_fs'') [''ScenarioList.csv''] = Some (File ''id,plan'')"
  "lookup (store (staged world2 [''ScenarioList.csv''] [''ScenarioList.csv''] ''id,plan,status'')
      ''ssh_fs'') [''ScenarioList.csv~''] = None"
  "lookup (store (staged world2 [''ScenarioList.csv''] [''ScenarioList.csv''] ''id,plan,status'')
      ''ssh_fs'') [''ScenarioList.csv.temp''] = Some (File ''id,plan,status'')"
  "lookup (store (staged world2 [''ScenarioList.csv''] [''ScenarioList.csv''] ''id,plan,status'')
      ''local'') [''ScenarioList.csv''] = None"
  by (simp_all add: staged_def put_def print_def lookup_def world2_def add_suffix_def)

text \<open>
  C1: the code departs from the claim. No push returns normally: whatever the
  checksum, the call of line 313 raises. For the scenario list edited locally and
  pushed with the checksum the remote command would recompute, the push raises
  \<^verbatim>\<open>AttributeError\<close> after the staging step: the canonical file on the server still has
  its old bytes, no backup of it exists, and the edited file lies at the staging path.
\<close>

theorem push_with_matching_checksum_raises:
  "fst (push da w file_name prev rename) \<noteq> Inr ()
   \<and> push da_ssh world2 [''ScenarioList.csv'']
        (remote_checksum (root da_ssh) (store world2 ''ssh_fs'') [''ScenarioList.csv''])
        [''ScenarioList.csv'']
      = (Inl AttributeError,
         staged world2 [''ScenarioList.csv''] [''ScenarioList.csv''] ''id,plan,status'')
   \<and> lookup (store (staged world2 [''ScenarioList.csv''] [''ScenarioList.csv''] ''id,plan,status'')
        ''ssh_fs'') [''ScenarioList.csv''] = Some (File ''id,plan'')
   \<and> lookup (store (staged world2 [''ScenarioList.csv''] [''ScenarioList.csv''] ''id,plan,status'')
        ''ssh_fs'') [''ScenarioList.csv~''] = None
   \<and> lookup (store (staged world2 [''ScenarioList.csv''] [''ScenarioList.csv''] ''id,plan,status'')
        ''ssh_fs'') [''ScenarioList.csv.temp''] = Some (File ''id,plan,status'')"
  using push_never_returns push_after_staging[OF da_ssh_unfold world2_ready] staged_world2
  by (intro conjI) simp_all

text \<open>
  C3: the code departs from the claim. No push raises the conflict error: the remote
  comparison is never reached. For the scenario list, whatever checksum is supplied,
  the push raises \<^verbatim>\<open>AttributeError\<close>; the canonical file on the server keeps its bytes.
\<close>

theorem push_never_raises_the_conflict_error:
  "fst (push da w file_name prev rename) \<noteq> Inl ConflictError
   \<and> fst (push da_ssh world2 [''ScenarioList.csv''] prev [''ScenarioList.csv''])
       = Inl AttributeError
   \<and> lookup (store (snd (push da_ssh world2 [''ScenarioList.csv''] prev [''ScenarioList.csv'']))
        ''ssh_fs'') [''ScenarioList.csv'']
       = lookup (store world2 ''ssh_fs'') [''ScenarioList.csv'']"
proof -
  have "lookup (store world2 ''ssh_fs'') [''ScenarioList.csv''] = Some (File ''id,plan'')"
    by (simp add: lookup_def world2_def)
  then show ?thesis
    using push_never_conflicts push_after_staging[OF da_ssh_unfold world2_ready, of prev]
      staged_world2(1)
    by (intro conjI) simp_all
qed

text \<open>
  C8. The local file is moved to the backup path \<open>rename + ".temp"\<close> on the server before
  the remote command is issued. After a push that has staged the file and then fails,
  the file is no longer in the local filesystem and the backup path is occupied; the
  same push again, with any checksum, raises the already-exists error on the backup
  path and changes nothing, and so does every push in a world where the backup path is
  still present on the server.
\<close>

theorem push_failure_strands_the_file:
  assumes da: "da = SSHDataAccess r ldir True"
    and ready: "staging_ready da w file_name rename new"
  shows "\<exists>e w'. push da w file_name prev rename = (Inl e, w')
          \<and> lookup (store w' (local_fs da)) file_name = None
          \<and> lookup (store w' ''ssh_fs'') (add_suffix rename ''.temp'') = Some (File new)
          \<and> push da w' file_name prev2 rename
               = (Inl (AlreadyExists (add_suffix rename ''.temp'') ''ssh_fs''), w')
          \<and> (exists (store w2 ''ssh_fs'') (add_suffix rename ''.temp'') \<longrightarrow>
               push da w2 file_name prev2 rename
                 = (Inl (AlreadyExists (add_suffix rename ''.temp'') ''ssh_fs''), w2))"
proof -
  let ?backup = "add_suffix rename ''.temp''"
  let ?w' = "staged w file_name rename new"
  have cfg: "local_fs da = ''local''" "(''ssh_fs'', 3) \<in> set (members (fs da))"
    by (simp_all add: da SSHDataAccess_def members_get_multi_fs)
  from ready have src: "lookup (store w ''local'') file_name = Some (File new)"
    by (simp add: staging_ready_def cfg)
  then have fn: "file_name \<noteq> []"
    by (auto simp: lookup_def)
  from ready cfg(2) have bn: "?backup \<noteq> []"
    by (auto simp: staging_ready_def dest: which_None_member)
  have res: "push da w file_name prev rename = (Inl AttributeError, ?w')"
    by (rule push_after_staging[OF da ready])
  have loc: "lookup (store ?w' (local_fs da)) file_name = None"
    using fn by (simp add: cfg put_def print_def staged_def lookup_def)
  have bk: "lookup (store ?w' ''ssh_fs'') ?backup = Some (File new)"
    using bn by (simp add: staged_def put_def print_def lookup_def)
  then have "exists (store ?w' ''ssh_fs'') ?backup"
    by (simp add: exists_def)
  then have retry: "push da ?w' file_name prev2 rename = (Inl (AlreadyExists ?backup ''ssh_fs''), ?w')"
    by (rule push_stale_backup[OF da])
  have "exists (store w2 ''ssh_fs'') ?backup \<longrightarrow>
      push da w2 file_name prev2 rename = (Inl (AlreadyExists ?backup ''ssh_fs''), w2)"
    using push_stale_backup[OF da] by blast
  with res loc bk retry show ?thesis
    by blast
qed

theorem push_failure_strands_witness:
  "da_ssh = SSHDataAccess ''/mnt/bes/pcm'' ''/home/user/ScenarioData'' True
   \<and> staging_ready da_ssh world2 [''ScenarioList.csv''] [''ScenarioList.csv''] ''id,plan,status''
   \<and> (\<exists>e w'. push da_ssh world2 [''ScenarioList.csv''] ''stale'' [''ScenarioList.csv'']
            = (Inl e, w')
          \<and> lookup (store w' ''local'') [''ScenarioList.csv''] = None
          \<and> lookup (store w' ''ssh_fs'') [''ScenarioList.csv.temp''] = Some (File ''id,plan,status'')
          \<and> exists (store w' ''ssh_fs'') [''ScenarioList.csv.temp'']
          \<and> push da_ssh w' [''ScenarioList.csv''] ''fresh'' [''ScenarioList.csv'']
               = (Inl (AlreadyExists [''ScenarioList.csv.temp''] ''ssh_fs''), w'))"
proof -
  have s: "add_suffix [''ScenarioList.csv''] ''.temp'' = [''ScenarioList.csv.temp'']"
    by (simp add: add_suffix_def)
  from push_failure_strands_the_file[OF da_ssh_unfold world2_ready, of "''stale''" "''fresh''"]
  obtain e w' where w':
    "push da_ssh world2 [''ScenarioList.csv''] ''stale'' [''ScenarioList.csv''] = (Inl e, w')"
    "lookup (store w' ''local'') [''ScenarioList.csv''] = None"
    "lookup (store w' ''ssh_fs'') [''ScenarioList.csv.temp''] = Some (File ''id,plan,status'')"
    "push da_ssh w' [''ScenarioList.csv''] ''fresh'' [''ScenarioList.csv'']
       = (Inl (AlreadyExists [''ScenarioList.csv.temp''] ''ssh_fs''), w')"
    unfolding s da_ssh_simps by blast
  from w'(3) have "exists (store w' ''ssh_fs'') [''ScenarioList.csv.temp'']"
    by (simp add: exists_def)
  with w' have "\<exists>e w'. push da_ssh world2 [''ScenarioList.csv''] ''stale'' [''ScenarioList.csv'']
            = (Inl e, w')
          \<and> lookup (store w' ''local'') [''ScenarioList.csv''] = None
          \<and> lookup (store w' ''ssh_fs'') [''ScenarioList.csv.temp''] = Some (File ''id,plan,status'')
          \<and> exists (store w' ''ssh_fs'') [''ScenarioList.csv.temp'']
          \<and> push da_ssh w' [''ScenarioList.csv''] ''fresh'' [''ScenarioList.csv'']
               = (Inl (AlreadyExists [''ScenarioList.csv.temp''] ''ssh_fs''), w')"
    by blast
  with da_ssh_unfold world2_ready show ?thesis
    by (intro conjI)
qed

end
